theory Spec2Isabelle
  imports Complex_Main "HOL-Library.AList" "HOL-Library.Log_Nat"
begin

section \<open>JSON values and the JavaScript operators applied to them\<close>

text \<open>
  The dashboard keeps device state in a hosted key-path store whose values are JSON
  trees. A finite JavaScript number is modelled as the real it denotes (the two zeros
  are one), \<open>JInf True\<close> and \<open>JInf False\<close> are \<open>Infinity\<close> and \<open>-Infinity\<close>, and an object is
  an association list of its properties. Comparisons, sums, differences and the
  division by a constant are taken on the reals; the one product the modelled code
  computes, the panel power, is rounded as the machine rounds it (\<open>js_times\<close> below).
  \<open>JNull\<close> stands for both \<open>null\<close> and an absent property (\<open>undefined\<close>): the store
  keeps no null, so a read cannot tell them apart. Arrays are left out: the store turns them into keyed objects
  and none of the modelled functions reads one from it.
\<close>

datatype json =
    JNull
  | JBool bool
  | JNum real
  | JInf bool
  | JStr string
  | JObj "(string \<times> json) list"

text \<open>Truthiness, as \<open>if (x)\<close>, \<open>!x\<close>, \<open>x && y\<close> and \<open>x || y\<close> test it.\<close>

fun truthy :: "json \<Rightarrow> bool" where
  "truthy JNull = False"
| "truthy (JBool b) = b"
| "truthy (JNum x) = (x \<noteq> 0)"
| "truthy (JInf positive) = True"
| "truthy (JStr s) = (s \<noteq> [])"
| "truthy (JObj kvs) = True"

text \<open>Property access \<open>v.k\<close> on a value that is not null: absent properties read as undefined.\<close>

fun prop_of :: "string \<Rightarrow> json \<Rightarrow> json" where
  "prop_of k (JObj kvs) = (case map_of kvs k of Some v \<Rightarrow> v | None \<Rightarrow> JNull)"
| "prop_of k v = JNull"

fun props :: "json \<Rightarrow> (string \<times> json) list" where
  "props (JObj kvs) = kvs"
| "props v = []"

text \<open>
  The numeric reading of a stored field in a comparison or a subtraction: \<open>None\<close> is NaN,
  which an absent field gives. The numeric fields hold numbers in every tree this
  repository writes; a string or an object there, which JavaScript would convert through
  its text, and an infinity are outside the model and read as NaN. Every theorem below
  that depends on a comparison states its operands as finite numbers.
\<close>

fun to_number :: "json \<Rightarrow> real option" where
  "to_number (JNum x) = Some x"
| "to_number (JBool b) = Some (if b then 1 else 0)"
| "to_number v = None"

text \<open>\<open>a >= b\<close> and \<open>a > b\<close>: false as soon as one side is NaN.\<close>

definition js_ge :: "real option \<Rightarrow> real option \<Rightarrow> bool" where
  "js_ge a b = (case (a, b) of (Some x, Some y) \<Rightarrow> x \<ge> y | _ \<Rightarrow> False)"

definition js_gt :: "real option \<Rightarrow> real option \<Rightarrow> bool" where
  "js_gt a b = (case (a, b) of (Some x, Some y) \<Rightarrow> x > y | _ \<Rightarrow> False)"

section \<open>Double-precision multiplication\<close>

text \<open>
  JavaScript numbers are IEEE-754 binary64 values and \<open>a * b\<close> is the exact product
  rounded to the nearest of them, ties to the even significand. \<open>exponent x\<close> is the
  binary exponent of \<open>x \<noteq> 0\<close>, the \<open>e\<close> with \<open>2^e \<le> |x| < 2^(e+1)\<close>; \<open>quantum x\<close> is the
  spacing of the doubles at that exponent, \<open>2^(e - 52)\<close>, and \<open>2^(-1074)\<close> in the subnormal
  range. \<open>round_double\<close> rounds to the nearest multiple of the quantum and gives an
  infinity when the result leaves the finite range. \<open>is_double x\<close> says that \<open>x\<close> is
  itself a finite double.
\<close>

definition exponent :: "real \<Rightarrow> int" where
  "exponent x = (if \<bar>x\<bar> \<ge> 1 then bitlen \<lfloor>\<bar>x\<bar>\<rfloor> - 1 else - bitlen (\<lceil>1 / \<bar>x\<bar>\<rceil> - 1))"

definition quantum :: "real \<Rightarrow> real" where
  "quantum x = 2 powi (max (exponent x) (- 1022) - 52)"

definition round_half_even :: "real \<Rightarrow> int" where
  "round_half_even y =
     (let f = \<lfloor>y\<rfloor>; r = y - of_int f
      in if r < 1 / 2 then f
         else if r > 1 / 2 then f + 1
         else if even f then f else f + 1)"

definition round_double :: "real \<Rightarrow> json" where
  "round_double x =
     (if x = 0 then JNum 0
      else (let q = quantum x; r = of_int (round_half_even (x / q)) * q
            in if \<bar>r\<bar> \<ge> 2 ^ 1024 then JInf (r > 0) else JNum r))"

definition js_times :: "real \<Rightarrow> real \<Rightarrow> json" where
  "js_times a b = round_double (a * b)"

definition is_double :: "real \<Rightarrow> bool" where
  "is_double x =
     (x = 0 \<or> (of_int \<lfloor>x / quantum x\<rfloor> = x / quantum x \<and> \<bar>x\<bar> < 2 ^ 1024))"

section \<open>The hosted store\<close>

text \<open>
  A path \<open>devices/${deviceId}/cleaningControl/trigger\<close> is the list of its segments;
  identifiers are single store keys. \<open>get_path\<close> is what a snapshot of the path holds
  (\<open>JNull\<close> when nothing is there), \<open>set_path\<close> replaces the subtree at the path and
  creates the objects on the way.
\<close>

type_synonym path = "string list"

fun get_path :: "path \<Rightarrow> json \<Rightarrow> json" where
  "get_path [] t = t"
| "get_path (k # ks) t = get_path ks (prop_of k t)"

fun set_path :: "path \<Rightarrow> json \<Rightarrow> json \<Rightarrow> json" where
  "set_path [] v t = v"
| "set_path (k # ks) v t = JObj (AList.update k (set_path ks v (prop_of k t)) (props t))"

text \<open>Two paths diverge when neither leads through the other.\<close>

fun diverge :: "path \<Rightarrow> path \<Rightarrow> bool" where
  "diverge (a # p) (b # q) = (a \<noteq> b \<or> diverge p q)"
| "diverge p q = False"

text \<open>
  Errors are values. \<open>Error m\<close> is a thrown \<open>Error\<close> or a rejected promise whose
  \<open>message\<close> is \<open>m\<close>; \<open>UnknownProvider p\<close> is the error thrown for a provider \<open>p\<close> the
  weather bridge does not know (its message embeds the text of \<open>p\<close>).
\<close>

datatype error = Error string | UnknownProvider json

text \<open>
  The store is remote: every call of its SDK may be rejected. \<open>faults\<close> lists what the
  coming calls meet, in order: \<open>None\<close> for a call that is served, \<open>Some m\<close> for one
  rejected with message \<open>m\<close>; past the end of the list every call is served.
\<close>

record backend =
  tree :: json
  faults :: "string option list"

definition next_fault :: "backend \<Rightarrow> string option \<times> backend" where
  "next_fault b = (case faults b of [] \<Rightarrow> (None, b) | f # fs \<Rightarrow> (f, b\<lparr>faults := fs\<rparr>))"

text \<open>\<open>get(ref(database, p))\<close>: the value of the snapshot.\<close>

definition db_get :: "path \<Rightarrow> backend \<Rightarrow> (error + json) \<times> backend" where
  "db_get p b = (case next_fault b of
      (Some m, b') \<Rightarrow> (Inl (Error m), b')
    | (None, b') \<Rightarrow> (Inr (get_path p (tree b')), b'))"

text \<open>\<open>snapshot.exists()\<close>\<close>

definition exists_snap :: "json \<Rightarrow> bool" where
  "exists_snap v = (v \<noteq> JNull)"

text \<open>\<open>set(ref(database, p), v)\<close>\<close>

definition db_set :: "path \<Rightarrow> json \<Rightarrow> backend \<Rightarrow> (error + unit) \<times> backend" where
  "db_set p v b = (case next_fault b of
      (Some m, b') \<Rightarrow> (Inl (Error m), b')
    | (None, b') \<Rightarrow> (Inr (), b'\<lparr>tree := set_path p v (tree b')\<rparr>))"

text \<open>\<open>update(ref(database), updates)\<close>: a multi-path update, one write per key of \<open>updates\<close>.\<close>

definition apply_updates :: "(path \<times> json) list \<Rightarrow> json \<Rightarrow> json" where
  "apply_updates ups t = fold (\<lambda>(p, v). set_path p v) ups t"

definition db_update :: "(path \<times> json) list \<Rightarrow> backend \<Rightarrow> (error + unit) \<times> backend" where
  "db_update ups b = (case next_fault b of
      (Some m, b') \<Rightarrow> (Inl (Error m), b')
    | (None, b') \<Rightarrow> (Inr (), b'\<lparr>tree := apply_updates ups (tree b')\<rparr>))"

section \<open>ESP32 control: progress reports\<close>

text \<open>
  \<open>updateCleaningProgress(deviceId, progress, waterUsed = 0)\<close> of
  \<open>js/core/esp32-control.js\<close>. \<open>waterUsed\<close> is \<open>None\<close> when the argument is omitted;
  \<open>now\<close> is what \<open>Date.now()\<close> reads.
\<close>

definition cleaningControl :: "string \<Rightarrow> path" where
  "cleaningControl deviceId = [''devices'', deviceId, ''cleaningControl'']"

definition progress_updates :: "string \<Rightarrow> real \<Rightarrow> real option \<Rightarrow> real \<Rightarrow> (path \<times> json) list" where
  "progress_updates deviceId progress waterUsed now =
     [(cleaningControl deviceId @ [''currentOperation'', ''progress''], JNum progress),
      (cleaningControl deviceId @ [''currentOperation'', ''waterUsed''],
         JNum (case waterUsed of None \<Rightarrow> 0 | Some w \<Rightarrow> w))]
     @ (if progress \<ge> 100 then
          [(cleaningControl deviceId @ [''status''], JStr ''completed''),
           (cleaningControl deviceId @ [''trigger''], JNum 0),
           (cleaningControl deviceId @ [''autoSettings'', ''lastCleaning''], JNum now)]
        else [])"

definition updateCleaningProgress ::
  "string \<Rightarrow> real \<Rightarrow> real option \<Rightarrow> real \<Rightarrow> backend \<Rightarrow> (error + unit) \<times> backend" where
  "updateCleaningProgress deviceId progress waterUsed now b =
     db_update (progress_updates deviceId progress waterUsed now) b"

section \<open>ESP32 control: sensor reports\<close>

text \<open>
  \<open>updateSensorData(deviceId, sensorData)\<close> of \<open>js/core/esp32-control.js\<close>. A report
  carries an optional \<open>environment\<close> object and optional \<open>parameters\<close> with an optional
  \<open>voltage\<close> and \<open>current\<close>; \<open>None\<close> is a member the report lacks. \<open>or_zero\<close> is \<open>x || 0\<close>
  on a number. The readings are doubles, and the power is their double product.
\<close>

record panel_reading =
  voltage :: "real option"
  current :: "real option"

record sensorData =
  environment :: "(string \<times> json) list option"
  parameters :: "panel_reading option"

definition or_zero :: "real option \<Rightarrow> real" where
  "or_zero x = (case x of Some v \<Rightarrow> if v \<noteq> 0 then v else 0 | None \<Rightarrow> 0)"

definition sensor_updates :: "string \<Rightarrow> sensorData \<Rightarrow> real \<Rightarrow> (path \<times> json) list" where
  "sensor_updates deviceId sd stamp =
     (case environment sd of
        Some env \<Rightarrow>
          [([''devices'', deviceId, ''environment''],
            JObj (AList.update ''timestamp'' (JNum stamp) env))]
      | None \<Rightarrow> [])
     @ (case parameters sd of
        Some ps \<Rightarrow>
          (let v = or_zero (voltage ps);
               c = or_zero (current ps);
               power = js_times v c
           in [([''devices'', deviceId, ''panelParameters''],
                JObj [(''voltage'', JNum v), (''current'', JNum c),
                      (''power'', power), (''timestamp'', JNum stamp)])])
      | None \<Rightarrow> [])
     @ [([''devices'', deviceId, ''info'', ''lastUpdated''], JNum stamp),
        ([''devices'', deviceId, ''info'', ''status''], JStr ''online'')]"

definition updateSensorData ::
  "string \<Rightarrow> sensorData \<Rightarrow> real \<Rightarrow> backend \<Rightarrow> (error + unit) \<times> backend" where
  "updateSensorData deviceId sd now b = db_update (sensor_updates deviceId sd now) b"

section \<open>Device provisioning\<close>

text \<open>
  \<open>addDeviceToUser(userId, deviceInfo = {})\<close> of the database initialisation module.
  \<open>deviceId\<close> is the key that \<open>push\<close> generated, \<open>today\<close> the date part of
  \<open>new Date().toISOString()\<close>, and \<open>now k\<close> the \<open>k\<close>-th reading of \<open>Date.now()\<close> while
  the device tree is built. The members of \<open>deviceInfo\<close> are optional.
\<close>

record deviceInfo =
  di_name :: "string option"
  di_location :: "string option"
  di_panelRating :: "real option"
  di_lat :: "real option"
  di_lon :: "real option"

definition or_text :: "string option \<Rightarrow> string \<Rightarrow> string" where
  "or_text x d = (case x of Some s \<Rightarrow> if s \<noteq> [] then s else d | None \<Rightarrow> d)"

definition or_number :: "real option \<Rightarrow> real \<Rightarrow> real" where
  "or_number x d = (case x of Some v \<Rightarrow> if v \<noteq> 0 then v else d | None \<Rightarrow> d)"

definition deviceData :: "string \<Rightarrow> deviceInfo \<Rightarrow> string \<Rightarrow> (nat \<Rightarrow> real) \<Rightarrow> json" where
  "deviceData userId di today now = JObj
     [(''info'', JObj
        [(''name'', JStr (or_text (di_name di) ''Solar Panel Device'')),
         (''location'', JStr (or_text (di_location di) ''Not specified'')),
         (''installDate'', JStr today),
         (''panelRating'', JNum (or_number (di_panelRating di) 300)),
         (''lat'', JNum (or_number (di_lat di) 0)),
         (''lon'', JNum (or_number (di_lon di) 0)),
         (''ownerId'', JStr userId),
         (''lastUpdated'', JNum (now 0)),
         (''status'', JStr ''online'')]),
      (''environment'', JObj
        [(''humidity'', JNum 0),
         (''temperature'', JNum 0),
         (''dustPresence'', JNum 0),
         (''timestamp'', JNum (now 1))]),
      (''panelParameters'', JObj
        [(''voltage'', JNum 0),
         (''current'', JNum 0),
         (''power'', JNum 0),
         (''timestamp'', JNum (now 2))]),
      (''panelStatus'', JObj
        [(''dustLevel'', JNum 0),
         (''dustCategory'', JStr ''light''),
         (''currentEfficiency'', JNum 0),
         (''dailyLoss'', JObj
            [(''kwh'', JNum 0), (''percentage'', JNum 0), (''currency'', JNum 0)]),
         (''weeklyLoss'', JObj [(''kwh'', JNum 0), (''avgPercentage'', JNum 0)]),
         (''monthlyLoss'', JObj [(''kwh'', JNum 0), (''avgPercentage'', JNum 0)]),
         (''lastUpdated'', JNum (now 3))]),
      (''cleaningControl'', JObj
        [(''mode'', JStr ''manual''),
         (''method'', JStr ''dry''),
         (''status'', JStr ''idle''),
         (''pwmDry'', JNum 150),
         (''pwmWet'', JNum 180),
         (''trigger'', JNum 0),
         (''autoSettings'', JObj
            [(''enabled'', JBool False),
             (''dustThreshold'', JNum 100),
             (''scheduleEnabled'', JBool False),
             (''schedule'', JStr ''daily''),
             (''lastCleaning'', JNull),
             (''nextScheduled'', JNull)]),
         (''currentOperation'', JObj
            [(''startTime'', JNull),
             (''progress'', JNum 0),
             (''waterUsed'', JNum 0),
             (''estimatedCompletion'', JNull)]),
         (''lastUpdated'', JNum (now 4))]),
      (''historicalData'', JObj [(''daily'', JObj [])])]"

definition addDeviceToUser ::
  "string \<Rightarrow> deviceInfo \<Rightarrow> string \<Rightarrow> string \<Rightarrow> (nat \<Rightarrow> real) \<Rightarrow> backend
     \<Rightarrow> (error + string \<times> string) \<times> backend" where
  "addDeviceToUser userId di deviceId today now b =
     (case db_set [''users'', userId, ''devices'', deviceId] (JBool True) b of
        (Inl e, b1) \<Rightarrow> (Inl e, b1)
      | (Inr u, b1) \<Rightarrow>
          (case db_set [''devices'', deviceId] (deviceData userId di today now) b1 of
             (Inl e, b2) \<Rightarrow> (Inl e, b2)
           | (Inr u', b2) \<Rightarrow> (Inr (deviceId, ''Device added successfully''), b2)))"

section \<open>Auto-cleaning decision rules\<close>

text \<open>
  \<open>shouldTriggerAutoCleaning(deviceId)\<close> of \<open>js/core/esp32-control.js\<close>: the two reads
  of \<open>Promise.all\<close>, then the rule on the two snapshots. A rejected read is caught and
  gives \<open>false\<close>. \<open>now\<close> is what \<open>Date.now()\<close> reads.
\<close>

definition daysSinceLastCleaning :: "real \<Rightarrow> json \<Rightarrow> real option" where
  "daysSinceLastCleaning now lastCleaning =
     map_option (\<lambda>t. (now - t) / (1000 * 60 * 60 * 24)) (to_number lastCleaning)"

definition autoCleaningRule :: "json \<Rightarrow> json \<Rightarrow> real \<Rightarrow> bool" where
  "autoCleaningRule autoSettings panelStatus now =
     (if \<not> exists_snap autoSettings \<or> \<not> exists_snap panelStatus then False
      else if \<not> truthy (prop_of ''enabled'' autoSettings) then False
      else if js_ge (to_number (prop_of ''dustLevel'' panelStatus))
                    (to_number (prop_of ''dustThreshold'' autoSettings)) then True
      else if truthy (prop_of ''scheduleEnabled'' autoSettings)
              \<and> truthy (prop_of ''lastCleaning'' autoSettings) then
        (let days = daysSinceLastCleaning now (prop_of ''lastCleaning'' autoSettings);
             schedule = prop_of ''schedule'' autoSettings
         in if schedule = JStr ''daily'' then js_ge days (Some 1)
            else if schedule = JStr ''weekly'' then js_ge days (Some 7)
            else if schedule = JStr ''monthly'' then js_ge days (Some 30)
            else False)
      else False)"

definition shouldTriggerAutoCleaning :: "string \<Rightarrow> real \<Rightarrow> backend \<Rightarrow> bool \<times> backend" where
  "shouldTriggerAutoCleaning deviceId now b =
     (case db_get (cleaningControl deviceId @ [''autoSettings'']) b of
        (cleaningSnap, b1) \<Rightarrow>
          (case db_get [''devices'', deviceId, ''panelStatus''] b1 of
             (statusSnap, b2) \<Rightarrow>
               (case (cleaningSnap, statusSnap) of
                  (Inr autoSettings, Inr panelStatus) \<Rightarrow>
                    (autoCleaningRule autoSettings panelStatus now, b2)
                | _ \<Rightarrow> (False, b2))))"

text \<open>
  \<open>selectCleaningMethod(deviceId)\<close>: wet above a dust level of 100 unless the
  temperature is above 45, dry otherwise and whenever a read fails.
\<close>

definition cleaningMethodRule :: "json \<Rightarrow> json \<Rightarrow> string" where
  "cleaningMethodRule panelStatus env =
     (if \<not> exists_snap panelStatus \<or> \<not> exists_snap env then ''dry''
      else if js_gt (to_number (prop_of ''dustLevel'' panelStatus)) (Some 100) then
        (if js_gt (to_number (prop_of ''temperature'' env)) (Some 45) then ''dry''
         else ''wet'')
      else ''dry'')"

definition selectCleaningMethod :: "string \<Rightarrow> backend \<Rightarrow> string \<times> backend" where
  "selectCleaningMethod deviceId b =
     (case db_get [''devices'', deviceId, ''panelStatus''] b of
        (statusSnap, b1) \<Rightarrow>
          (case db_get [''devices'', deviceId, ''environment''] b1 of
             (envSnap, b2) \<Rightarrow>
               (case (statusSnap, envSnap) of
                  (Inr panelStatus, Inr env) \<Rightarrow> (cleaningMethodRule panelStatus env, b2)
                | _ \<Rightarrow> (''dry'', b2))))"

section \<open>Dust-level ingestion from a weather provider\<close>

text \<open>
  The weather bridge. What \<open>fetch\<close> and \<open>response.json()\<close> give is an input: the request
  is rejected, the status is not ok, the body is not JSON, or the body is \<open>data\<close>. The
  provider bodies are typed by what the adapters read in them; \<open>None\<close> is a member that
  is absent or null, and \<open>main\<close> is \<open>JNull\<close> when absent. \<open>lat\<close> and \<open>lon\<close> only go into
  the request URL.
\<close>

datatype 'a fetched = Rejected | NotOk | Unparsable | Body 'a

record components =
  c_pm2_5 :: "real option"
  c_pm10 :: "real option"

record owm_entry =
  entry_components :: "components option"
  entry_main :: json

record owm_data =
  owm_list :: "owm_entry list option"

record air_quality = components +
  us_epa_index :: json

record wa_current =
  cur_air_quality :: "air_quality option"

record wa_data =
  wa_current :: "wa_current option"

record dust_data =
  dustLevel :: real
  dustCategory :: string
  pm25 :: real
  pm10 :: real
  aqi :: json
  timestamp :: real

definition fetchOpenWeatherMapData ::
  "json \<Rightarrow> json \<Rightarrow> json \<Rightarrow> owm_data fetched \<Rightarrow> real \<Rightarrow> dust_data option" where
  "fetchOpenWeatherMapData lat lon apiKey response now =
     (if \<not> truthy apiKey then None
      else case response of
        Body data \<Rightarrow>
          (case owm_list data of
             None \<Rightarrow> None
           | Some [] \<Rightarrow> None
           | Some (first # rest) \<Rightarrow>
               (case entry_components first of
                  None \<Rightarrow> None
                | Some comps \<Rightarrow>
                    (let p25 = or_zero (c_pm2_5 comps);
                         p10 = or_zero (c_pm10 comps);
                         level = (p25 + p10) / 2;
                         category = (if level > 150 then ''high''
                                     else if level > 50 then ''moderate''
                                     else ''light'')
                     in if entry_main first = JNull then None
                        else Some \<lparr>dustLevel = level, dustCategory = category,
                                   pm25 = p25, pm10 = p10,
                                   aqi = prop_of ''aqi'' (entry_main first),
                                   timestamp = now\<rparr>)))
      | _ \<Rightarrow> None)"

definition fetchWeatherAPIData ::
  "json \<Rightarrow> json \<Rightarrow> json \<Rightarrow> wa_data fetched \<Rightarrow> real \<Rightarrow> dust_data option" where
  "fetchWeatherAPIData lat lon apiKey response now =
     (if \<not> truthy apiKey then None
      else case response of
        Body data \<Rightarrow>
          (case wa_current data of
             None \<Rightarrow> None
           | Some cur \<Rightarrow>
               (case cur_air_quality cur of
                  None \<Rightarrow> None
                | Some airQuality \<Rightarrow>
                    (let p25 = or_zero (c_pm2_5 airQuality);
                         p10 = or_zero (c_pm10 airQuality);
                         level = (p25 + p10) / 2;
                         category = (if level > 150 then ''high''
                                     else if level > 50 then ''moderate''
                                     else ''light'')
                     in Some \<lparr>dustLevel = level, dustCategory = category,
                                pm25 = p25, pm10 = p10,
                                aqi = us_epa_index airQuality,
                                timestamp = now\<rparr>)))
      | _ \<Rightarrow> None)"

text \<open>
  \<open>getWeatherConfig()\<close>: the stored configuration, the defaults when none is stored,
  \<open>null\<close> when the read is rejected.
\<close>

definition getWeatherConfig :: "backend \<Rightarrow> json \<times> backend" where
  "getWeatherConfig b =
     (case db_get [''config'', ''weatherAPI''] b of
        (Inl e, b') \<Rightarrow> (JNull, b')
      | (Inr v, b') \<Rightarrow>
          (if exists_snap v then v
           else JObj [(''provider'', JStr ''openweathermap''),
                      (''apiKey'', JStr []),
                      (''updateInterval'', JNum 1800000)], b'))"

text \<open>
  \<open>updateDustLevel(deviceId)\<close>. \<open>owm\<close> and \<open>wapi\<close> are what the two providers would
  answer, \<open>fetched_at\<close> and \<open>now\<close> the clock readings in the adapter and at the write.
  \<open>storeDustData\<close> is the part after the provider switch.
\<close>

definition storeDustData ::
  "string \<Rightarrow> dust_data option \<Rightarrow> real \<Rightarrow> backend \<Rightarrow> (error + dust_data) \<times> backend" where
  "storeDustData deviceId dustData now b =
     (case dustData of
        None \<Rightarrow> (Inl (Error ''Failed to fetch dust data''), b)
      | Some dd \<Rightarrow>
          (case db_update
                  [([''devices'', deviceId, ''panelStatus'', ''dustLevel''], JNum (dustLevel dd)),
                   ([''devices'', deviceId, ''panelStatus'', ''dustCategory''],
                      JStr (dustCategory dd)),
                   ([''devices'', deviceId, ''panelStatus'', ''lastUpdated''], JNum now)] b of
             (Inl e, b') \<Rightarrow> (Inl e, b')
           | (Inr u, b') \<Rightarrow> (Inr dd, b')))"

definition updateDustLevel ::
  "string \<Rightarrow> owm_data fetched \<Rightarrow> wa_data fetched \<Rightarrow> real \<Rightarrow> real \<Rightarrow> backend
     \<Rightarrow> (error + dust_data) \<times> backend" where
  "updateDustLevel deviceId owm wapi fetched_at now b =
     (case db_get [''devices'', deviceId, ''info''] b of
        (Inl e, b1) \<Rightarrow> (Inl e, b1)
      | (Inr info, b1) \<Rightarrow>
          (if \<not> exists_snap info then (Inl (Error ''Device not found''), b1)
           else
             (let lat = prop_of ''lat'' info; lon = prop_of ''lon'' info
              in if \<not> truthy lat \<or> \<not> truthy lon
                 then (Inl (Error ''Device location not set''), b1)
                 else
                   (case getWeatherConfig b1 of
                      (config, b2) \<Rightarrow>
                        (if \<not> truthy config
                         then (Inl (Error ''Weather API config not available''), b2)
                         else
                           (let provider = prop_of ''provider'' config;
                                apiKey = prop_of ''apiKey'' config
                            in if provider = JStr ''openweathermap'' then
                                 storeDustData deviceId
                                   (fetchOpenWeatherMapData lat lon apiKey owm fetched_at) now b2
                               else if provider = JStr ''weatherapi'' then
                                 storeDustData deviceId
                                   (fetchWeatherAPIData lat lon apiKey wapi fetched_at) now b2
                               else (Inl (UnknownProvider provider), b2)))))))"

section \<open>Browser storage with expiry\<close>

text \<open>
  \<open>js/shared/storage.js\<close>. \<open>window.localStorage\<close> maps keys to strings and is \<open>None\<close>
  when the browser offers none. \<open>JSON.parse\<close> is a parameter: \<open>parse raw\<close> is \<open>None\<close>
  where it throws. \<open>typeof\<close> is read off the value; \<open>JNull\<close> reads as \<open>object\<close>, which is
  right for \<open>null\<close> and, like \<open>undefined\<close>, neither truthy nor a number.
\<close>

type_synonym storage = "(string \<rightharpoonup> string) option"

fun typeof :: "json \<Rightarrow> string" where
  "typeof JNull = ''object''"
| "typeof (JBool b) = ''boolean''"
| "typeof (JNum x) = ''number''"
| "typeof (JInf positive) = ''number''"
| "typeof (JStr s) = ''string''"
| "typeof (JObj kvs) = ''object''"

definition getItem :: "(string \<Rightarrow> json option) \<Rightarrow> storage \<Rightarrow> string \<Rightarrow> json \<Rightarrow> json" where
  "getItem parse storage key defaultValue =
     (case storage of
        None \<Rightarrow> defaultValue
      | Some st \<Rightarrow>
          (if key = [] then defaultValue
           else case st key of
             None \<Rightarrow> defaultValue
           | Some raw \<Rightarrow> (case parse raw of None \<Rightarrow> defaultValue | Some v \<Rightarrow> v)))"

definition removeItem :: "storage \<Rightarrow> string \<Rightarrow> bool \<times> storage" where
  "removeItem storage key =
     (case storage of
        None \<Rightarrow> (False, storage)
      | Some st \<Rightarrow>
          (if key = [] then (False, storage) else (True, Some (st(key := None)))))"

definition getWithExpiry ::
  "(string \<Rightarrow> json option) \<Rightarrow> storage \<Rightarrow> real \<Rightarrow> string \<Rightarrow> json \<Rightarrow> json \<times> storage" where
  "getWithExpiry parse storage now key defaultValue =
     (let payload = getItem parse storage key JNull
      in if \<not> truthy payload \<or> typeof payload \<noteq> ''object'' then (defaultValue, storage)
         else
           (let v = prop_of ''value'' payload; expiry = prop_of ''expiry'' payload
            in if typeof expiry \<noteq> ''number'' then (defaultValue, storage)
               else if js_gt (Some now) (to_number expiry)
                    then (defaultValue, snd (removeItem storage key))
               else (v, storage)))"

section \<open>A store with one device\<close>

text \<open>
  The store that holds the single device \<open>deviceId\<close> with subtree \<open>dev\<close> and serves
  every call; the worked examples below run on it.
\<close>

definition one_device :: "string \<Rightarrow> json \<Rightarrow> backend" where
  "one_device deviceId dev =
     \<lparr>tree = JObj [(''devices'', JObj [(deviceId, dev)])], faults = []\<rparr>"

section \<open>Reading back what was written\<close>

lemma prop_of_update:
  "prop_of k (JObj (AList.update k' x kvs)) = (if k = k' then x else prop_of k (JObj kvs))"
  by (simp add: update_conv')

lemma prop_of_props: "prop_of k (JObj (props t)) = prop_of k t"
  by (cases t) simp_all

lemma get_set_same: "get_path p (set_path p v t) = v"
proof (induction p arbitrary: t)
  case Nil
  show ?case by simp
next
  case (Cons k ks)
  have "get_path (k # ks) (set_path (k # ks) v t) = get_path ks (set_path ks v (prop_of k t))"
    by (simp only: get_path.simps set_path.simps prop_of_update refl if_True)
  then show ?case using Cons.IH by simp
qed

lemma get_set_diverge: "diverge p q \<Longrightarrow> get_path p (set_path q v t) = get_path p t"
proof (induction p q arbitrary: t rule: diverge.induct)
  case (1 a p b q)
  have step: "get_path (a # p) (set_path (b # q) v t) =
      get_path p (if a = b then set_path q v (prop_of b t) else prop_of a t)"
    by (simp only: get_path.simps set_path.simps prop_of_update prop_of_props)
  show ?case
  proof (cases "a = b")
    case True
    with 1 step show ?thesis by simp
  next
    case False
    with step show ?thesis by simp
  qed
qed simp_all

section \<open>Served and rejected calls\<close>

lemma db_update_served:
  "fst (next_fault b) = None \<Longrightarrow>
     fst (db_update ups b) = Inr () \<and> tree (snd (db_update ups b)) = apply_updates ups (tree b)"
  by (auto simp: db_update_def next_fault_def split: list.splits prod.splits option.splits)

lemma db_update_rejected:
  "fst (next_fault b) = Some m \<Longrightarrow>
     fst (db_update ups b) = Inl (Error m) \<and> tree (snd (db_update ups b)) = tree b"
  by (auto simp: db_update_def next_fault_def split: list.splits prod.splits option.splits)

lemma apply_updates_frame:
  "\<forall>q \<in> set (map fst ups). diverge p q \<Longrightarrow> get_path p (apply_updates ups t) = get_path p t"
  unfolding apply_updates_def
  by (induction ups arbitrary: t) (auto simp: get_set_diverge)

lemma db_update_frame:
  assumes "\<forall>q \<in> set (map fst ups). diverge p q"
  shows "get_path p (tree (snd (db_update ups b))) = get_path p (tree b)"
proof (cases "fst (next_fault b)")
  case None
  then show ?thesis using db_update_served[of b ups] apply_updates_frame[OF assms] by simp
next
  case (Some m)
  then show ?thesis using db_update_rejected[of b m ups] by simp
qed

section \<open>Progress reports: completion and frame\<close>

text \<open>
  C5. A progress report with \<open>progress \<ge> 100\<close> that the store serves succeeds and
  leaves \<open>cleaningControl/status\<close> at \<open>completed\<close>, \<open>cleaningControl/trigger\<close> at 0 and
  \<open>cleaningControl/autoSettings/lastCleaning\<close> at the clock reading of the update.
\<close>

theorem updateCleaningProgress_completes:
  assumes "progress \<ge> 100" and "fst (next_fault b) = None"
  shows "fst (updateCleaningProgress deviceId progress waterUsed now b) = Inr ()
    \<and> get_path (cleaningControl deviceId @ [''status''])
         (tree (snd (updateCleaningProgress deviceId progress waterUsed now b)))
       = JStr ''completed''
    \<and> get_path (cleaningControl deviceId @ [''trigger''])
         (tree (snd (updateCleaningProgress deviceId progress waterUsed now b))) = JNum 0
    \<and> get_path (cleaningControl deviceId @ [''autoSettings'', ''lastCleaning''])
         (tree (snd (updateCleaningProgress deviceId progress waterUsed now b))) = JNum now"
  using assms db_update_served[OF assms(2), of "progress_updates deviceId progress waterUsed now"]
  by (simp add: updateCleaningProgress_def progress_updates_def apply_updates_def
      cleaningControl_def get_set_same get_set_diverge del: get_path.simps set_path.simps)

theorem updateCleaningProgress_completes_witness:
  "fst (updateCleaningProgress ''panel1'' 100 (Some 2.5) 1700000000000
          \<lparr>tree = JNull, faults = []\<rparr>) = Inr ()
   \<and> get_path (cleaningControl ''panel1'' @ [''status''])
        (tree (snd (updateCleaningProgress ''panel1'' 100 (Some 2.5) 1700000000000
          \<lparr>tree = JNull, faults = []\<rparr>))) = JStr ''completed''
   \<and> get_path (cleaningControl ''panel1'' @ [''trigger''])
        (tree (snd (updateCleaningProgress ''panel1'' 100 (Some 2.5) 1700000000000
          \<lparr>tree = JNull, faults = []\<rparr>))) = JNum 0
   \<and> get_path (cleaningControl ''panel1'' @ [''autoSettings'', ''lastCleaning''])
        (tree (snd (updateCleaningProgress ''panel1'' 100 (Some 2.5) 1700000000000
          \<lparr>tree = JNull, faults = []\<rparr>))) = JNum 1700000000000"
  using updateCleaningProgress_completes
    [of 100 "\<lparr>tree = JNull, faults = []\<rparr>" "''panel1''" "Some 2.5" 1700000000000]
  by (simp add: next_fault_def)

text \<open>
  C10. A progress report with \<open>progress < 100\<close> writes two paths only,
  \<open>currentOperation/progress\<close> and \<open>currentOperation/waterUsed\<close> (0 when the argument is
  omitted); whether the store serves the call or not, \<open>cleaningControl/status\<close>,
  \<open>cleaningControl/trigger\<close> and \<open>cleaningControl/autoSettings/lastCleaning\<close> read afterwards
  what they read before, and so does every path that diverges from the two written ones.
  When the store serves the call, the two written paths read the reported progress and
  water use afterwards.
\<close>

theorem updateCleaningProgress_partial_frame:
  assumes "progress < 100"
  shows "progress_updates deviceId progress waterUsed now =
      [(cleaningControl deviceId @ [''currentOperation'', ''progress''], JNum progress),
       (cleaningControl deviceId @ [''currentOperation'', ''waterUsed''],
          JNum (case waterUsed of None \<Rightarrow> 0 | Some w \<Rightarrow> w))]
    \<and> get_path (cleaningControl deviceId @ [''status''])
         (tree (snd (updateCleaningProgress deviceId progress waterUsed now b)))
       = get_path (cleaningControl deviceId @ [''status'']) (tree b)
    \<and> get_path (cleaningControl deviceId @ [''trigger''])
         (tree (snd (updateCleaningProgress deviceId progress waterUsed now b)))
       = get_path (cleaningControl deviceId @ [''trigger'']) (tree b)
    \<and> get_path (cleaningControl deviceId @ [''autoSettings'', ''lastCleaning''])
         (tree (snd (updateCleaningProgress deviceId progress waterUsed now b)))
       = get_path (cleaningControl deviceId @ [''autoSettings'', ''lastCleaning'']) (tree b)
    \<and> (diverge p (cleaningControl deviceId @ [''currentOperation'', ''progress''])
        \<and> diverge p (cleaningControl deviceId @ [''currentOperation'', ''waterUsed''])
        \<longrightarrow> get_path p (tree (snd (updateCleaningProgress deviceId progress waterUsed now b)))
            = get_path p (tree b))
    \<and> (fst (next_fault b) = None
        \<longrightarrow> get_path (cleaningControl deviceId @ [''currentOperation'', ''progress''])
              (tree (snd (updateCleaningProgress deviceId progress waterUsed now b)))
            = JNum progress
          \<and> get_path (cleaningControl deviceId @ [''currentOperation'', ''waterUsed''])
              (tree (snd (updateCleaningProgress deviceId progress waterUsed now b)))
            = JNum (case waterUsed of None \<Rightarrow> 0 | Some w \<Rightarrow> w))"
proof -
  have ups: "progress_updates deviceId progress waterUsed now =
      [(cleaningControl deviceId @ [''currentOperation'', ''progress''], JNum progress),
       (cleaningControl deviceId @ [''currentOperation'', ''waterUsed''],
          JNum (case waterUsed of None \<Rightarrow> 0 | Some w \<Rightarrow> w))]"
    using assms by (simp add: progress_updates_def)
  have frame: "get_path q (tree (snd (updateCleaningProgress deviceId progress waterUsed now b)))
      = get_path q (tree b)"
    if "diverge q (cleaningControl deviceId @ [''currentOperation'', ''progress''])"
      and "diverge q (cleaningControl deviceId @ [''currentOperation'', ''waterUsed''])" for q
    unfolding updateCleaningProgress_def
    by (rule db_update_frame) (simp add: ups that)
  have "diverge (cleaningControl deviceId @ [s]) (cleaningControl deviceId @ [''currentOperation'', x])"
    if "s \<noteq> ''currentOperation''" for s x
    using that by (simp add: cleaningControl_def)
  moreover have "diverge (cleaningControl deviceId @ [''autoSettings'', ''lastCleaning''])
      (cleaningControl deviceId @ [''currentOperation'', x])" for x
    by (simp add: cleaningControl_def)
  moreover have "get_path (cleaningControl deviceId @ [''currentOperation'', ''progress''])
              (tree (snd (updateCleaningProgress deviceId progress waterUsed now b)))
            = JNum progress
          \<and> get_path (cleaningControl deviceId @ [''currentOperation'', ''waterUsed''])
              (tree (snd (updateCleaningProgress deviceId progress waterUsed now b)))
            = JNum (case waterUsed of None \<Rightarrow> 0 | Some w \<Rightarrow> w)"
    if served: "fst (next_fault b) = None"
    using db_update_served[OF served, of "progress_updates deviceId progress waterUsed now"]
    by (simp add: updateCleaningProgress_def ups apply_updates_def cleaningControl_def
        get_set_same get_set_diverge del: get_path.simps set_path.simps)
  ultimately show ?thesis using ups frame by simp
qed

theorem updateCleaningProgress_partial_frame_witness:
  "progress_updates ''panel1'' 40 None 1700000000000 =
      [(cleaningControl ''panel1'' @ [''currentOperation'', ''progress''], JNum 40),
       (cleaningControl ''panel1'' @ [''currentOperation'', ''waterUsed''], JNum 0)]
   \<and> get_path (cleaningControl ''panel1'' @ [''status''])
        (tree (snd (updateCleaningProgress ''panel1'' 40 None 1700000000000
           \<lparr>tree = set_path (cleaningControl ''panel1'' @ [''status'']) (JStr ''cleaning'') JNull,
            faults = []\<rparr>)))
      = JStr ''cleaning''
   \<and> get_path (cleaningControl ''panel1'' @ [''currentOperation'', ''progress''])
        (tree (snd (updateCleaningProgress ''panel1'' 40 None 1700000000000
           \<lparr>tree = set_path (cleaningControl ''panel1'' @ [''status'']) (JStr ''cleaning'') JNull,
            faults = []\<rparr>)))
      = JNum 40"
  using updateCleaningProgress_partial_frame
    [of 40 "''panel1''" None 1700000000000
        "\<lparr>tree = set_path (cleaningControl ''panel1'' @ [''status'']) (JStr ''cleaning'') JNull,
          faults = []\<rparr>" "[]"]
  by (simp add: get_set_same next_fault_def del: get_path.simps set_path.simps)

section \<open>Sensor reports\<close>

lemma or_zero_Some: "or_zero (Some v) = v"
  by (simp add: or_zero_def)

subsection \<open>What the rounding does\<close>

lemma exponent_bounds:
  assumes "x \<noteq> 0"
  shows "2 powi exponent x \<le> \<bar>x\<bar>" and "\<bar>x\<bar> < 2 powi (exponent x + 1)"
proof -
  show "2 powi exponent x \<le> \<bar>x\<bar>"
  proof (cases "\<bar>x\<bar> \<ge> 1")
    case True
    let ?n = "\<lfloor>\<bar>x\<bar>\<rfloor>"
    have n: "?n > 0" using True by linarith
    have e: "exponent x = bitlen ?n - 1" using True by (simp add: exponent_def)
    have ge: "bitlen ?n - 1 \<ge> 0" using n by (simp add: bitlen_alt_def)
    have "(2::int) ^ nat (bitlen ?n - 1) \<le> ?n" using bitlen_bounds[OF n] by simp
    then have "(2::real) ^ nat (bitlen ?n - 1) \<le> of_int ?n"
      by (metis of_int_le_iff of_int_numeral of_int_power)
    also have "\<dots> \<le> \<bar>x\<bar>" by simp
    finally show ?thesis using e ge by (simp add: power_int_def)
  next
    case False
    let ?m = "\<lceil>1 / \<bar>x\<bar>\<rceil> - 1"
    have y: "1 / \<bar>x\<bar> > 1" using False assms by simp
    have m: "?m > 0" using y by linarith
    have e: "exponent x = - bitlen ?m" using False by (simp add: exponent_def)
    have k: "bitlen ?m > 0" using m by (simp add: bitlen_alt_def)
    have "?m < (2::int) ^ nat (bitlen ?m)" using bitlen_bounds[OF m] by simp
    then have "?m + 1 \<le> (2::int) ^ nat (bitlen ?m)" by simp
    then have "of_int (?m + 1) \<le> (2::real) ^ nat (bitlen ?m)"
      by (metis of_int_le_iff of_int_numeral of_int_power)
    moreover have "1 / \<bar>x\<bar> \<le> of_int (?m + 1)" by simp
    ultimately have "1 / \<bar>x\<bar> \<le> (2::real) ^ nat (bitlen ?m)" by linarith
    then have "1 / (2::real) ^ nat (bitlen ?m) \<le> \<bar>x\<bar>"
      using assms by (simp add: field_simps)
    then show ?thesis using e k by (simp add: power_int_def field_simps)
  qed
  show "\<bar>x\<bar> < 2 powi (exponent x + 1)"
  proof (cases "\<bar>x\<bar> \<ge> 1")
    case True
    let ?n = "\<lfloor>\<bar>x\<bar>\<rfloor>"
    have n: "?n > 0" using True by linarith
    have e: "exponent x = bitlen ?n - 1" using True by (simp add: exponent_def)
    have ge: "bitlen ?n \<ge> 0" by (simp add: bitlen_nonneg)
    have "?n < (2::int) ^ nat (bitlen ?n)" using bitlen_bounds[OF n] by simp
    then have "?n + 1 \<le> (2::int) ^ nat (bitlen ?n)" by simp
    then have "of_int (?n + 1) \<le> (2::real) ^ nat (bitlen ?n)"
      by (metis of_int_le_iff of_int_numeral of_int_power)
    moreover have "\<bar>x\<bar> < of_int (?n + 1)" by linarith
    ultimately have "\<bar>x\<bar> < (2::real) ^ nat (bitlen ?n)" by linarith
    then show ?thesis using e ge by (simp add: power_int_def)
  next
    case False
    let ?m = "\<lceil>1 / \<bar>x\<bar>\<rceil> - 1"
    have y: "1 / \<bar>x\<bar> > 1" using False assms by simp
    have m: "?m > 0" using y by linarith
    have e: "exponent x = - bitlen ?m" using False by (simp add: exponent_def)
    have k: "bitlen ?m > 0" using m by (simp add: bitlen_alt_def)
    have "(2::int) ^ nat (bitlen ?m - 1) \<le> ?m" using bitlen_bounds[OF m] by simp
    then have "(2::real) ^ nat (bitlen ?m - 1) \<le> of_int ?m"
      by (metis of_int_le_iff of_int_numeral of_int_power)
    moreover have "of_int ?m < 1 / \<bar>x\<bar>" by linarith
    ultimately have lt: "(2::real) ^ nat (bitlen ?m - 1) < 1 / \<bar>x\<bar>" by linarith
    then have "\<bar>x\<bar> < 1 / (2::real) ^ nat (bitlen ?m - 1)"
      using assms by (simp add: field_simps)
    moreover have "2 powi (exponent x + 1) = 1 / (2::real) ^ nat (bitlen ?m - 1)"
    proof -
      obtain n where n: "bitlen ?m - 1 = int n"
        using k by (metis diff_ge_0_iff_ge int_one_le_iff_zero_less nonneg_int_cases)
      then have "exponent x + 1 = - int n" using e by simp
      then show ?thesis using n by (simp add: power_int_minus field_simps)
    qed
    ultimately show ?thesis by simp
  qed
qed

lemma quantum_pos: "quantum x > 0"
  by (simp add: quantum_def)

lemma round_half_even_int: "round_half_even (of_int n) = n"
  by (simp add: round_half_even_def)

lemma round_half_even_close: "\<bar>of_int (round_half_even y) - y\<bar> \<le> 1 / 2"
  unfolding round_half_even_def Let_def by (auto; linarith)

lemma round_double_exact: "is_double x \<Longrightarrow> round_double x = JNum x"
proof (cases "x = 0")
  case True
  then show ?thesis by (simp add: round_double_def)
next
  case False
  assume "is_double x"
  with False have i: "of_int \<lfloor>x / quantum x\<rfloor> = x / quantum x" and b: "\<bar>x\<bar> < 2 ^ 1024"
    by (simp_all add: is_double_def)
  have "round_half_even (x / quantum x) = \<lfloor>x / quantum x\<rfloor>"
    using round_half_even_int[of "\<lfloor>x / quantum x\<rfloor>"] i by simp
  then have "of_int (round_half_even (x / quantum x)) * quantum x
      = (x / quantum x) * quantum x"
    by (simp only: i)
  also have "\<dots> = x" using quantum_pos[of x] by simp
  finally have "of_int (round_half_even (x / quantum x)) * quantum x = x" .
  then show ?thesis using False b by (simp add: round_double_def Let_def)
qed

lemma round_double_close:
  assumes "round_double x = JNum p"
  shows "\<bar>p - x\<bar> \<le> quantum x / 2"
proof (cases "x = 0")
  case True
  with assms show ?thesis using quantum_pos[of x] by (simp add: round_double_def)
next
  case False
  let ?q = "quantum x"
  let ?n = "round_half_even (x / ?q)"
  have p: "p = of_int ?n * ?q"
    using assms False by (simp add: round_double_def Let_def split: if_splits)
  have "p - x = (of_int ?n - x / ?q) * ?q"
    using quantum_pos[of x] by (simp add: p algebra_simps)
  then have "\<bar>p - x\<bar> = \<bar>of_int ?n - x / ?q\<bar> * ?q"
    using quantum_pos[of x] by (simp add: abs_mult)
  also have "\<dots> \<le> (1 / 2) * ?q"
    using round_half_even_close[of "x / ?q"] quantum_pos[of x]
    by (intro mult_right_mono) simp_all
  finally show ?thesis by simp
qed

text \<open>Overflow: the product of \<open>2^512\<close> with itself leaves the finite range.\<close>

lemma exponent_pow2: "exponent (2 ^ n) = int n"
proof -
  have f: "\<lfloor>(2::real) ^ n\<rfloor> = 2 ^ n"
    by (metis floor_of_int of_int_numeral of_int_power)
  have "bitlen (1 * 2 ^ n) = bitlen 1 + int n"
    by (rule bitlen_pow2) simp
  then have b: "bitlen (2 ^ n) = 1 + int n"
    by (simp add: compute_bitlen)
  show ?thesis
    by (simp add: exponent_def f b)
qed

lemma js_times_overflow: "js_times (2 ^ 512) (2 ^ 512) = JInf True"
proof -
  have x: "(2::real) ^ 512 * 2 ^ 512 = 2 ^ 1024"
    by (simp flip: power_add)
  have e: "exponent ((2::real) ^ 1024) = 1024"
    using exponent_pow2[of 1024] by simp
  show ?thesis
    unfolding js_times_def x round_double_def quantum_def e
    by (simp add: round_half_even_def Let_def)
qed

text \<open>
  C7 as stated fails: the recorded power is the double product, which is not always
  \<open>v * c\<close>. For the doubles nearest 0.1 and 0.2 the report records the double nearest
  0.02 plus one unit in its last place (printed 0.020000000000000004), and the product
  of the two readings is another number.
\<close>

theorem updateSensorData_power_is_rounded:
  "get_path [''devices'', ''panel1'', ''panelParameters'', ''power'']
     (tree (snd (updateSensorData ''panel1''
        \<lparr>environment = None,
          parameters = Some \<lparr>voltage = Some (3602879701896397 / 36028797018963968),
                              current = Some (3602879701896397 / 18014398509481984)\<rparr>\<rparr>
        1700000000000 \<lparr>tree = JNull, faults = []\<rparr>)))
     = JNum (1441151880758559 / 72057594037927936)
   \<and> (1441151880758559 / 72057594037927936 :: real)
       \<noteq> (3602879701896397 / 36028797018963968) * (3602879701896397 / 18014398509481984)
   \<and> is_double (3602879701896397 / 36028797018963968)
   \<and> is_double (3602879701896397 / 18014398509481984)"
  by (simp add: updateSensorData_def sensor_updates_def db_update_def next_fault_def
      apply_updates_def or_zero_def js_times_def round_double_def is_double_def quantum_def
      exponent_def round_half_even_def Let_def compute_bitlen)

text \<open>
  C7, amended. A sensor report that the store serves succeeds, marks \<open>info/status\<close>
  as \<open>online\<close> and stamps \<open>info/lastUpdated\<close> with the clock reading of the call,
  whatever the report holds. When its parameters hold a voltage \<open>v\<close> and a current \<open>c\<close>,
  the recorded panel parameters are \<open>v\<close>, \<open>c\<close>, the double product of \<open>v\<close> and \<open>c\<close> as
  the power, and the same stamp. That power is \<open>v * c\<close> itself whenever \<open>v * c\<close> is a
  double, and when finite it is within half a quantum of \<open>v * c\<close>.
\<close>

theorem updateSensorData_power_online:
  assumes "fst (next_fault b) = None"
  shows "fst (updateSensorData deviceId sd now b) = Inr ()
    \<and> get_path [''devices'', deviceId, ''info'', ''status'']
         (tree (snd (updateSensorData deviceId sd now b))) = JStr ''online''
    \<and> get_path [''devices'', deviceId, ''info'', ''lastUpdated'']
         (tree (snd (updateSensorData deviceId sd now b))) = JNum now
    \<and> (parameters sd = Some \<lparr>voltage = Some v, current = Some c\<rparr> \<longrightarrow>
         get_path [''devices'', deviceId, ''panelParameters'']
           (tree (snd (updateSensorData deviceId sd now b)))
         = JObj [(''voltage'', JNum v), (''current'', JNum c),
                 (''power'', js_times v c), (''timestamp'', JNum now)]
         \<and> (is_double (v * c) \<longrightarrow> js_times v c = JNum (v * c))
         \<and> (js_times v c = JNum p \<longrightarrow> \<bar>p - v * c\<bar> \<le> quantum (v * c) / 2))"
proof -
  have store: "fst (updateSensorData deviceId sd now b) = Inr ()
    \<and> get_path [''devices'', deviceId, ''info'', ''status'']
         (tree (snd (updateSensorData deviceId sd now b))) = JStr ''online''
    \<and> get_path [''devices'', deviceId, ''info'', ''lastUpdated'']
         (tree (snd (updateSensorData deviceId sd now b))) = JNum now
    \<and> (parameters sd = Some \<lparr>voltage = Some v, current = Some c\<rparr> \<longrightarrow>
         get_path [''devices'', deviceId, ''panelParameters'']
           (tree (snd (updateSensorData deviceId sd now b)))
         = JObj [(''voltage'', JNum v), (''current'', JNum c),
                 (''power'', js_times v c), (''timestamp'', JNum now)])"
    using db_update_served[OF assms, of "sensor_updates deviceId sd now"]
    by (auto simp add: updateSensorData_def sensor_updates_def apply_updates_def or_zero_Some
        get_set_same get_set_diverge simp del: get_path.simps set_path.simps
        split: option.splits)
  have exact: "is_double (v * c) \<longrightarrow> js_times v c = JNum (v * c)"
    by (simp add: js_times_def round_double_exact)
  have close: "js_times v c = JNum p \<longrightarrow> \<bar>p - v * c\<bar> \<le> quantum (v * c) / 2"
    unfolding js_times_def using round_double_close[of "v * c" p] by blast
  show ?thesis using store exact close by blast
qed

theorem updateSensorData_power_online_witness:
  "get_path [''devices'', ''panel1'', ''panelParameters'', ''power'']
     (tree (snd (updateSensorData ''panel1''
        \<lparr>environment = None, parameters = Some \<lparr>voltage = Some 18.5, current = Some 4\<rparr>\<rparr>
        1700000000000 \<lparr>tree = JNull, faults = []\<rparr>))) = JNum 74
   \<and> get_path [''devices'', ''panel1'', ''info'', ''status'']
     (tree (snd (updateSensorData ''panel1''
        \<lparr>environment = None, parameters = Some \<lparr>voltage = Some 18.5, current = Some 4\<rparr>\<rparr>
        1700000000000 \<lparr>tree = JNull, faults = []\<rparr>))) = JStr ''online''"
  using updateSensorData_power_online
    [where b = "\<lparr>tree = JNull, faults = []\<rparr>" and deviceId = "''panel1''"
       and sd = "\<lparr>environment = None,
                  parameters = Some \<lparr>voltage = Some 18.5, current = Some 4\<rparr>\<rparr>"
       and now = 1700000000000 and v = "18.5" and c = 4 and p = 74]
  by (simp add: next_fault_def js_times_def round_double_def is_double_def quantum_def
      exponent_def round_half_even_def Let_def compute_bitlen)

section \<open>Provisioning round trip\<close>

lemma db_set_served:
  "fst (next_fault b) = None \<Longrightarrow>
     fst (db_set p v b) = Inr () \<and> tree (snd (db_set p v b)) = set_path p v (tree b)"
  by (auto simp: db_set_def next_fault_def split: list.splits prod.splits option.splits)

lemma db_set_next:
  "fst (next_fault b) = None \<Longrightarrow>
     fst (next_fault (snd (db_set p v b))) = fst (next_fault (snd (next_fault b)))"
  by (auto simp: db_set_def next_fault_def split: list.splits prod.splits option.splits)

lemma addDeviceToUser_served:
  assumes "fst (next_fault b) = None" and "fst (next_fault (snd (next_fault b))) = None"
  shows "fst (addDeviceToUser userId di deviceId today now b)
           = Inr (deviceId, ''Device added successfully'')"
    and "tree (snd (addDeviceToUser userId di deviceId today now b))
           = set_path [''devices'', deviceId] (deviceData userId di today now)
               (set_path [''users'', userId, ''devices'', deviceId] (JBool True) (tree b))"
proof -
  let ?b1 = "snd (db_set [''users'', userId, ''devices'', deviceId] (JBool True) b)"
  have 1: "fst (db_set [''users'', userId, ''devices'', deviceId] (JBool True) b) = Inr ()"
    and t1: "tree ?b1 = set_path [''users'', userId, ''devices'', deviceId] (JBool True) (tree b)"
    using db_set_served[OF assms(1)] by simp_all
  have n1: "fst (next_fault ?b1) = None"
    using db_set_next[OF assms(1)] assms(2) by simp
  have 2: "fst (db_set [''devices'', deviceId] (deviceData userId di today now) ?b1) = Inr ()"
    and t2: "tree (snd (db_set [''devices'', deviceId] (deviceData userId di today now) ?b1))
       = set_path [''devices'', deviceId] (deviceData userId di today now) (tree ?b1)"
    using db_set_served[OF n1] by simp_all
  show "fst (addDeviceToUser userId di deviceId today now b)
           = Inr (deviceId, ''Device added successfully'')"
    using 1 2 by (auto simp add: addDeviceToUser_def split: prod.splits sum.splits)
  show "tree (snd (addDeviceToUser userId di deviceId today now b))
           = set_path [''devices'', deviceId] (deviceData userId di today now)
               (set_path [''users'', userId, ''devices'', deviceId] (JBool True) (tree b))"
    using 1 2 t1 t2 by (auto simp add: addDeviceToUser_def split: prod.splits sum.splits)
qed

text \<open>
  C6. When the store serves both writes, \<open>addDeviceToUser\<close> returns the generated
  device identifier, the owner's reference \<open>users/userId/devices/deviceId\<close> reads
  \<open>true\<close>, and the device subtree read back is the default tree the function built:
  the telemetry numbers are 0, the cleaning mode is \<open>manual\<close>, the method \<open>dry\<close>, the
  status \<open>idle\<close>, \<open>pwmDry\<close> 150, \<open>pwmWet\<close> 180 and \<open>trigger\<close> 0.
\<close>

theorem addDeviceToUser_round_trip:
  assumes "fst (next_fault b) = None" and "fst (next_fault (snd (next_fault b))) = None"
  shows "(let r = addDeviceToUser userId di deviceId today now b;
              d = get_path [''devices'', deviceId] (tree (snd r))
          in fst r = Inr (deviceId, ''Device added successfully'')
           \<and> get_path [''users'', userId, ''devices'', deviceId] (tree (snd r)) = JBool True
           \<and> d = deviceData userId di today now
           \<and> get_path [''environment'', ''humidity''] d = JNum 0
           \<and> get_path [''environment'', ''temperature''] d = JNum 0
           \<and> get_path [''environment'', ''dustPresence''] d = JNum 0
           \<and> get_path [''panelParameters'', ''voltage''] d = JNum 0
           \<and> get_path [''panelParameters'', ''current''] d = JNum 0
           \<and> get_path [''panelParameters'', ''power''] d = JNum 0
           \<and> get_path [''panelStatus'', ''dustLevel''] d = JNum 0
           \<and> get_path [''panelStatus'', ''currentEfficiency''] d = JNum 0
           \<and> get_path [''panelStatus'', ''dailyLoss''] d
               = JObj [(''kwh'', JNum 0), (''percentage'', JNum 0), (''currency'', JNum 0)]
           \<and> get_path [''panelStatus'', ''weeklyLoss''] d
               = JObj [(''kwh'', JNum 0), (''avgPercentage'', JNum 0)]
           \<and> get_path [''panelStatus'', ''monthlyLoss''] d
               = JObj [(''kwh'', JNum 0), (''avgPercentage'', JNum 0)]
           \<and> get_path [''cleaningControl'', ''mode''] d = JStr ''manual''
           \<and> get_path [''cleaningControl'', ''method''] d = JStr ''dry''
           \<and> get_path [''cleaningControl'', ''status''] d = JStr ''idle''
           \<and> get_path [''cleaningControl'', ''pwmDry''] d = JNum 150
           \<and> get_path [''cleaningControl'', ''pwmWet''] d = JNum 180
           \<and> get_path [''cleaningControl'', ''trigger''] d = JNum 0
           \<and> get_path [''cleaningControl'', ''currentOperation'', ''progress''] d = JNum 0
           \<and> get_path [''cleaningControl'', ''currentOperation'', ''waterUsed''] d = JNum 0)"
proof -
  have d: "get_path [''devices'', deviceId]
      (tree (snd (addDeviceToUser userId di deviceId today now b)))
      = deviceData userId di today now"
    by (simp only: addDeviceToUser_served(2)[OF assms] get_set_same)
  have u: "get_path [''users'', userId, ''devices'', deviceId]
      (tree (snd (addDeviceToUser userId di deviceId today now b))) = JBool True"
    by (simp add: addDeviceToUser_served(2)[OF assms] get_set_same get_set_diverge
        del: get_path.simps set_path.simps)
  show ?thesis
    unfolding Let_def d u addDeviceToUser_served(1)[OF assms]
    by (simp add: deviceData_def)
qed

theorem addDeviceToUser_round_trip_witness:
  "fst (addDeviceToUser ''owner1'' \<lparr>di_name = None, di_location = None, di_panelRating = None,
          di_lat = None, di_lon = None\<rparr> ''dev1'' ''2024-05-01'' (\<lambda>k. 1714521600000)
          \<lparr>tree = JNull, faults = []\<rparr>) = Inr (''dev1'', ''Device added successfully'')
   \<and> get_path [''devices'', ''dev1'', ''cleaningControl'', ''pwmWet'']
       (tree (snd (addDeviceToUser ''owner1'' \<lparr>di_name = None, di_location = None,
          di_panelRating = None, di_lat = None, di_lon = None\<rparr> ''dev1'' ''2024-05-01''
          (\<lambda>k. 1714521600000) \<lparr>tree = JNull, faults = []\<rparr>))) = JNum 180"
  using addDeviceToUser_round_trip
    [where b = "\<lparr>tree = JNull, faults = []\<rparr>" and userId = "''owner1''"
       and di = "\<lparr>di_name = None, di_location = None, di_panelRating = None,
                  di_lat = None, di_lon = None\<rparr>"
       and deviceId = "''dev1''" and today = "''2024-05-01''" and now = "\<lambda>k. 1714521600000"]
  by (simp add: next_fault_def Let_def deviceData_def)

section \<open>Auto-cleaning trigger\<close>

lemma db_get_served:
  "fst (next_fault b) = None \<Longrightarrow>
     fst (db_get p b) = Inr (get_path p (tree b)) \<and> tree (snd (db_get p b)) = tree b"
  by (auto simp: db_get_def next_fault_def split: list.splits prod.splits option.splits)

lemma db_get_next:
  "fst (next_fault (snd (db_get p b))) = fst (next_fault (snd (next_fault b)))"
  by (auto simp: db_get_def next_fault_def split: list.splits prod.splits option.splits)

lemma db_get_result:
  "fst (db_get p b) = Inr v \<Longrightarrow> v = get_path p (tree b)"
  by (auto simp: db_get_def next_fault_def split: list.splits prod.splits option.splits)

lemma db_get_tree: "tree (snd (db_get p b)) = tree b"
  by (auto simp: db_get_def next_fault_def split: list.splits prod.splits option.splits)

lemma shouldTriggerAutoCleaning_served:
  assumes "fst (next_fault b) = None" and "fst (next_fault (snd (next_fault b))) = None"
  shows "fst (shouldTriggerAutoCleaning deviceId now b) =
     autoCleaningRule (get_path (cleaningControl deviceId @ [''autoSettings'']) (tree b))
       (get_path [''devices'', deviceId, ''panelStatus''] (tree b)) now"
proof -
  let ?b1 = "snd (db_get (cleaningControl deviceId @ [''autoSettings'']) b)"
  have n1: "fst (next_fault ?b1) = None"
    using assms(2) by (simp add: db_get_next)
  show ?thesis
    using db_get_served[OF assms(1), of "cleaningControl deviceId @ [''autoSettings'']"]
      db_get_served[OF n1, of "[''devices'', deviceId, ''panelStatus'']"]
    by (auto simp add: shouldTriggerAutoCleaning_def split: prod.splits sum.splits)
qed

lemma shouldTriggerAutoCleaning_implies_rule:
  assumes "fst (shouldTriggerAutoCleaning deviceId now b)"
  shows "autoCleaningRule (get_path (cleaningControl deviceId @ [''autoSettings'']) (tree b))
       (get_path [''devices'', deviceId, ''panelStatus''] (tree b)) now"
  using assms
    db_get_result[of "cleaningControl deviceId @ [''autoSettings'']" b]
    db_get_result[of "[''devices'', deviceId, ''panelStatus'']"
       "snd (db_get (cleaningControl deviceId @ [''autoSettings'']) b)"]
    db_get_tree[of "cleaningControl deviceId @ [''autoSettings'']" b]
  by (auto simp add: shouldTriggerAutoCleaning_def split: prod.splits sum.splits)

text \<open>
  C3. Whenever \<open>autoSettings/enabled\<close> is false (or absent), \<open>shouldTriggerAutoCleaning\<close>
  returns false, whatever the dust level, the schedule and the fate of the two reads.
  When it is true, both reads are served and the dust level is the number the dust
  threshold is, the function returns true: the comparison is inclusive.
\<close>

theorem shouldTriggerAutoCleaning_enabled_threshold:
  "(\<not> truthy (get_path (cleaningControl deviceId @ [''autoSettings'', ''enabled'']) (tree b))
      \<longrightarrow> fst (shouldTriggerAutoCleaning deviceId now b) = False)
   \<and> (fst (next_fault b) = None \<and> fst (next_fault (snd (next_fault b))) = None
      \<and> truthy (get_path (cleaningControl deviceId @ [''autoSettings'', ''enabled'']) (tree b))
      \<and> get_path [''devices'', deviceId, ''panelStatus'', ''dustLevel''] (tree b) = JNum d
      \<and> get_path (cleaningControl deviceId @ [''autoSettings'', ''dustThreshold'']) (tree b)
          = JNum d
      \<longrightarrow> fst (shouldTriggerAutoCleaning deviceId now b) = True)"
proof (intro conjI impI)
  assume off:
    "\<not> truthy (get_path (cleaningControl deviceId @ [''autoSettings'', ''enabled'']) (tree b))"
  have "\<not> autoCleaningRule (get_path (cleaningControl deviceId @ [''autoSettings'']) (tree b))
       (get_path [''devices'', deviceId, ''panelStatus''] (tree b)) now"
    using off by (simp add: autoCleaningRule_def cleaningControl_def)
  then show "fst (shouldTriggerAutoCleaning deviceId now b) = False"
    using shouldTriggerAutoCleaning_implies_rule[of deviceId now b] by blast
next
  assume h: "fst (next_fault b) = None \<and> fst (next_fault (snd (next_fault b))) = None
      \<and> truthy (get_path (cleaningControl deviceId @ [''autoSettings'', ''enabled'']) (tree b))
      \<and> get_path [''devices'', deviceId, ''panelStatus'', ''dustLevel''] (tree b) = JNum d
      \<and> get_path (cleaningControl deviceId @ [''autoSettings'', ''dustThreshold'']) (tree b)
          = JNum d"
  then have "autoCleaningRule (get_path (cleaningControl deviceId @ [''autoSettings'']) (tree b))
       (get_path [''devices'', deviceId, ''panelStatus''] (tree b)) now"
    by (auto simp add: autoCleaningRule_def cleaningControl_def exists_snap_def js_ge_def)
  then show "fst (shouldTriggerAutoCleaning deviceId now b) = True"
    using h shouldTriggerAutoCleaning_served[of b deviceId now] by simp
qed

theorem shouldTriggerAutoCleaning_enabled_threshold_witness:
  "fst (shouldTriggerAutoCleaning ''panel1'' 1700000000000
     (one_device ''panel1'' (JObj
        [(''cleaningControl'', JObj [(''autoSettings'', JObj
            [(''enabled'', JBool False), (''dustThreshold'', JNum 100)])]),
         (''panelStatus'', JObj [(''dustLevel'', JNum 400)])]))) = False
   \<and> fst (shouldTriggerAutoCleaning ''panel1'' 1700000000000
     (one_device ''panel1'' (JObj
        [(''cleaningControl'', JObj [(''autoSettings'', JObj
            [(''enabled'', JBool True), (''dustThreshold'', JNum 100)])]),
         (''panelStatus'', JObj [(''dustLevel'', JNum 100)])]))) = True"
  using shouldTriggerAutoCleaning_enabled_threshold
    [where deviceId = "''panel1''" and now = 1700000000000 and d = 400
       and b = "one_device ''panel1'' (JObj
        [(''cleaningControl'', JObj [(''autoSettings'', JObj
            [(''enabled'', JBool False), (''dustThreshold'', JNum 100)])]),
         (''panelStatus'', JObj [(''dustLevel'', JNum 400)])])"]
    shouldTriggerAutoCleaning_enabled_threshold
    [where deviceId = "''panel1''" and now = 1700000000000 and d = 100
       and b = "one_device ''panel1'' (JObj
        [(''cleaningControl'', JObj [(''autoSettings'', JObj
            [(''enabled'', JBool True), (''dustThreshold'', JNum 100)])]),
         (''panelStatus'', JObj [(''dustLevel'', JNum 100)])])"]
  by (simp add: one_device_def next_fault_def cleaningControl_def)

text \<open>
  C4 as stated fails at the timestamp 0: with auto mode and a daily schedule enabled,
  a dust level below the threshold and \<open>lastCleaning = 0\<close>, far more than a day has
  elapsed at any present clock reading, yet the function returns false, because the
  code tests \<open>autoSettings.lastCleaning\<close> for truthiness and 0 is falsy.
\<close>

theorem shouldTriggerAutoCleaning_zero_lastCleaning:
  "fst (shouldTriggerAutoCleaning ''panel1'' 1700000000000
     (one_device ''panel1'' (JObj
        [(''cleaningControl'', JObj [(''autoSettings'', JObj
            [(''enabled'', JBool True), (''dustThreshold'', JNum 100),
             (''scheduleEnabled'', JBool True), (''schedule'', JStr ''daily''),
             (''lastCleaning'', JNum 0)])]),
         (''panelStatus'', JObj [(''dustLevel'', JNum 20)])]))) = False
   \<and> (1700000000000 :: real) - 0 \<ge> 1 * 86400000"
  by (simp add: shouldTriggerAutoCleaning_def one_device_def db_get_def next_fault_def
      cleaningControl_def autoCleaningRule_def exists_snap_def js_ge_def)

text \<open>
  C4, amended. With both reads served, auto mode and the schedule enabled, and a dust
  level below the threshold: when \<open>lastCleaning\<close> is a timestamp other than 0, the
  function returns true exactly when \<open>now - lastCleaning\<close> is at least 1 day
  (86400000 ms) for \<open>daily\<close>, 7 days for \<open>weekly\<close> and 30 days for \<open>monthly\<close>; when
  \<open>lastCleaning\<close> is unset or 0 the schedule rule does not fire and the function
  returns false. The example is a weekly schedule whose last cleaning is 8 days old.
\<close>

theorem shouldTriggerAutoCleaning_schedule:
  assumes "fst (next_fault b) = None" and "fst (next_fault (snd (next_fault b))) = None"
    and "get_path (cleaningControl deviceId @ [''autoSettings'']) (tree b) = autoSettings"
    and "get_path [''devices'', deviceId, ''panelStatus''] (tree b) = panelStatus"
    and "truthy (prop_of ''enabled'' autoSettings)"
    and "truthy (prop_of ''scheduleEnabled'' autoSettings)"
    and "prop_of ''dustLevel'' panelStatus = JNum d"
    and "prop_of ''dustThreshold'' autoSettings = JNum th"
    and "d < th"
  shows "(prop_of ''lastCleaning'' autoSettings = JNum t \<and> t \<noteq> 0 \<longrightarrow>
            (prop_of ''schedule'' autoSettings = JStr ''daily'' \<longrightarrow>
               fst (shouldTriggerAutoCleaning deviceId now b) = (now - t \<ge> 1 * 86400000))
          \<and> (prop_of ''schedule'' autoSettings = JStr ''weekly'' \<longrightarrow>
               fst (shouldTriggerAutoCleaning deviceId now b) = (now - t \<ge> 7 * 86400000))
          \<and> (prop_of ''schedule'' autoSettings = JStr ''monthly'' \<longrightarrow>
               fst (shouldTriggerAutoCleaning deviceId now b) = (now - t \<ge> 30 * 86400000)))
       \<and> (\<not> truthy (prop_of ''lastCleaning'' autoSettings) \<longrightarrow>
            fst (shouldTriggerAutoCleaning deviceId now b) = False)"
proof -
  have r: "fst (shouldTriggerAutoCleaning deviceId now b)
      = autoCleaningRule autoSettings panelStatus now"
    using shouldTriggerAutoCleaning_served[OF assms(1,2), of deviceId now] assms(3,4) by simp
  have ex: "exists_snap autoSettings" "exists_snap panelStatus"
    using assms(7,8) by (auto simp add: exists_snap_def)
  have below: "\<not> js_ge (to_number (prop_of ''dustLevel'' panelStatus))
      (to_number (prop_of ''dustThreshold'' autoSettings))"
    using assms(7,8,9) by (simp add: js_ge_def)
  show ?thesis
    unfolding r using ex below assms(5,6)
    by (auto simp add: autoCleaningRule_def daysSinceLastCleaning_def js_ge_def Let_def
        field_simps)
qed

theorem shouldTriggerAutoCleaning_schedule_witness:
  "fst (shouldTriggerAutoCleaning ''panel1'' 1700000000000
     (one_device ''panel1'' (JObj
        [(''cleaningControl'', JObj [(''autoSettings'', JObj
            [(''enabled'', JBool True), (''dustThreshold'', JNum 100),
             (''scheduleEnabled'', JBool True), (''schedule'', JStr ''weekly''),
             (''lastCleaning'', JNum 1699308800000)])]),
         (''panelStatus'', JObj [(''dustLevel'', JNum 20)])]))) = True"
  using shouldTriggerAutoCleaning_schedule
    [where deviceId = "''panel1''" and now = 1700000000000 and d = 20 and th = 100
       and t = 1699308800000
       and autoSettings = "JObj
            [(''enabled'', JBool True), (''dustThreshold'', JNum 100),
             (''scheduleEnabled'', JBool True), (''schedule'', JStr ''weekly''),
             (''lastCleaning'', JNum 1699308800000)]"
       and panelStatus = "JObj [(''dustLevel'', JNum 20)]"
       and b = "one_device ''panel1'' (JObj
        [(''cleaningControl'', JObj [(''autoSettings'', JObj
            [(''enabled'', JBool True), (''dustThreshold'', JNum 100),
             (''scheduleEnabled'', JBool True), (''schedule'', JStr ''weekly''),
             (''lastCleaning'', JNum 1699308800000)])]),
         (''panelStatus'', JObj [(''dustLevel'', JNum 20)])])"]
  by (simp add: one_device_def next_fault_def cleaningControl_def)

section \<open>Cleaning method selection\<close>

lemma selectCleaningMethod_served:
  assumes "fst (next_fault b) = None" and "fst (next_fault (snd (next_fault b))) = None"
  shows "fst (selectCleaningMethod deviceId b) =
     cleaningMethodRule (get_path [''devices'', deviceId, ''panelStatus''] (tree b))
       (get_path [''devices'', deviceId, ''environment''] (tree b))"
proof -
  let ?b1 = "snd (db_get [''devices'', deviceId, ''panelStatus''] b)"
  have n1: "fst (next_fault ?b1) = None"
    using assms(2) by (simp add: db_get_next)
  show ?thesis
    using db_get_served[OF assms(1), of "[''devices'', deviceId, ''panelStatus'']"]
      db_get_served[OF n1, of "[''devices'', deviceId, ''environment'']"]
    by (auto simp add: selectCleaningMethod_def split: prod.splits sum.splits)
qed

lemma selectCleaningMethod_dry_or_rule:
  "fst (selectCleaningMethod deviceId b) = ''dry'' \<or>
   fst (selectCleaningMethod deviceId b) =
     cleaningMethodRule (get_path [''devices'', deviceId, ''panelStatus''] (tree b))
       (get_path [''devices'', deviceId, ''environment''] (tree b))"
  using db_get_result[of "[''devices'', deviceId, ''panelStatus'']" b]
    db_get_result[of "[''devices'', deviceId, ''environment'']"
       "snd (db_get [''devices'', deviceId, ''panelStatus''] b)"]
    db_get_tree[of "[''devices'', deviceId, ''panelStatus'']" b]
  by (auto simp add: selectCleaningMethod_def split: prod.splits sum.splits)

text \<open>
  C2 as stated fails: at a temperature of exactly 45 with a dust level above 100 the
  function returns \<open>wet\<close>, since the code tests \<open>temperature > 45\<close>. Here the dust level
  is 150 and both reads are served.
\<close>

theorem selectCleaningMethod_45_is_wet:
  "fst (selectCleaningMethod ''panel1''
     (one_device ''panel1'' (JObj
        [(''panelStatus'', JObj [(''dustLevel'', JNum 150)]),
         (''environment'', JObj [(''temperature'', JNum 45)])]))) = ''wet''
   \<and> fst (selectCleaningMethod ''panel1''
     (one_device ''panel1'' (JObj
        [(''panelStatus'', JObj [(''dustLevel'', JNum 150)]),
         (''environment'', JObj [(''temperature'', JNum 45)])]))) \<noteq> ''dry''"
  by (simp add: selectCleaningMethod_def one_device_def db_get_def next_fault_def
      cleaningMethodRule_def exists_snap_def js_gt_def)

text \<open>
  C2, amended. \<open>selectCleaningMethod\<close> returns \<open>dry\<close> when the dust level is exactly
  100, whatever the temperature and the fate of the reads. With both reads served and a
  dust level above 100 it returns \<open>dry\<close> when the temperature is above 45 and \<open>wet\<close>
  otherwise: at exactly 45 the result is \<open>wet\<close>.
\<close>

theorem selectCleaningMethod_boundaries:
  "(get_path [''devices'', deviceId, ''panelStatus'', ''dustLevel''] (tree b) = JNum 100
      \<longrightarrow> fst (selectCleaningMethod deviceId b) = ''dry'')
   \<and> (fst (next_fault b) = None \<and> fst (next_fault (snd (next_fault b))) = None
      \<and> get_path [''devices'', deviceId, ''panelStatus'', ''dustLevel''] (tree b) = JNum d
      \<and> d > 100
      \<and> get_path [''devices'', deviceId, ''environment'', ''temperature''] (tree b) = JNum tmp
      \<longrightarrow> fst (selectCleaningMethod deviceId b) = (if tmp > 45 then ''dry'' else ''wet''))"
proof (intro conjI impI)
  assume "get_path [''devices'', deviceId, ''panelStatus'', ''dustLevel''] (tree b) = JNum 100"
  then have "cleaningMethodRule (get_path [''devices'', deviceId, ''panelStatus''] (tree b))
       (get_path [''devices'', deviceId, ''environment''] (tree b)) = ''dry''"
    by (simp add: cleaningMethodRule_def js_gt_def)
  then show "fst (selectCleaningMethod deviceId b) = ''dry''"
    using selectCleaningMethod_dry_or_rule[of deviceId b] by auto
next
  assume h: "fst (next_fault b) = None \<and> fst (next_fault (snd (next_fault b))) = None
      \<and> get_path [''devices'', deviceId, ''panelStatus'', ''dustLevel''] (tree b) = JNum d
      \<and> d > 100
      \<and> get_path [''devices'', deviceId, ''environment'', ''temperature''] (tree b) = JNum tmp"
  then have "cleaningMethodRule (get_path [''devices'', deviceId, ''panelStatus''] (tree b))
       (get_path [''devices'', deviceId, ''environment''] (tree b))
       = (if tmp > 45 then ''dry'' else ''wet'')"
    by (auto simp add: cleaningMethodRule_def js_gt_def exists_snap_def)
  then show "fst (selectCleaningMethod deviceId b) = (if tmp > 45 then ''dry'' else ''wet'')"
    using h selectCleaningMethod_served[of b deviceId] by simp
qed

theorem selectCleaningMethod_boundaries_witness:
  "fst (selectCleaningMethod ''panel1''
     (one_device ''panel1'' (JObj
        [(''panelStatus'', JObj [(''dustLevel'', JNum 100)]),
         (''environment'', JObj [(''temperature'', JNum 30)])]))) = ''dry''
   \<and> fst (selectCleaningMethod ''panel1''
     (one_device ''panel1'' (JObj
        [(''panelStatus'', JObj [(''dustLevel'', JNum 120)]),
         (''environment'', JObj [(''temperature'', JNum 45)])]))) = ''wet''
   \<and> fst (selectCleaningMethod ''panel1''
     (one_device ''panel1'' (JObj
        [(''panelStatus'', JObj [(''dustLevel'', JNum 120)]),
         (''environment'', JObj [(''temperature'', JNum 46)])]))) = ''dry''"
  using selectCleaningMethod_boundaries
    [where deviceId = "''panel1''" and d = 100 and tmp = 30
       and b = "one_device ''panel1'' (JObj
        [(''panelStatus'', JObj [(''dustLevel'', JNum 100)]),
         (''environment'', JObj [(''temperature'', JNum 30)])])"]
    selectCleaningMethod_boundaries
    [where deviceId = "''panel1''" and d = 120 and tmp = 45
       and b = "one_device ''panel1'' (JObj
        [(''panelStatus'', JObj [(''dustLevel'', JNum 120)]),
         (''environment'', JObj [(''temperature'', JNum 45)])])"]
    selectCleaningMethod_boundaries
    [where deviceId = "''panel1''" and d = 120 and tmp = 46
       and b = "one_device ''panel1'' (JObj
        [(''panelStatus'', JObj [(''dustLevel'', JNum 120)]),
         (''environment'', JObj [(''temperature'', JNum 46)])])"]
  by (simp add: one_device_def next_fault_def)

section \<open>Dust categories of the weather bridge\<close>

lemma fetchOpenWeatherMapData_result:
  assumes "fetchOpenWeatherMapData lat lon apiKey response now = Some r"
  shows "dustLevel r = (pm25 r + pm10 r) / 2
    \<and> dustCategory r = (if dustLevel r > 150 then ''high''
                        else if dustLevel r > 50 then ''moderate'' else ''light'')"
  using assms
  by (auto simp add: fetchOpenWeatherMapData_def Let_def
      split: if_splits fetched.splits option.splits list.splits)

lemma fetchWeatherAPIData_result:
  assumes "fetchWeatherAPIData lat lon apiKey response now = Some r"
  shows "dustLevel r = (pm25 r + pm10 r) / 2
    \<and> dustCategory r = (if dustLevel r > 150 then ''high''
                        else if dustLevel r > 50 then ''moderate'' else ''light'')"
  using assms
  by (auto simp add: fetchWeatherAPIData_def Let_def
      split: if_splits fetched.splits option.splits list.splits)

text \<open>
  C1 as stated fails at the boundary it names: a provider answer with \<open>pm2_5 = 40\<close> and
  \<open>pm10 = 60\<close> gives the dust level 50 and the category \<open>light\<close>, from either adapter,
  since the code tests \<open>dustLevel > 50\<close>.
\<close>

theorem dust_level_50_is_light:
  "fetchOpenWeatherMapData (JNum 12.97) (JNum 77.59) (JStr ''key'')
     (Body \<lparr>owm_list = Some
        [\<lparr>entry_components = Some \<lparr>c_pm2_5 = Some 40, c_pm10 = Some 60\<rparr>,
          entry_main = JObj [(''aqi'', JNum 2)]\<rparr>]\<rparr>) 1700000000000
   = Some \<lparr>dustLevel = 50, dustCategory = ''light'', pm25 = 40, pm10 = 60, aqi = JNum 2,
           timestamp = 1700000000000\<rparr>
   \<and> fetchWeatherAPIData (JNum 12.97) (JNum 77.59) (JStr ''key'')
     (Body \<lparr>wa_current = Some \<lparr>cur_air_quality = Some
        \<lparr>c_pm2_5 = Some 40, c_pm10 = Some 60, us_epa_index = JNum 2\<rparr>\<rparr>\<rparr>) 1700000000000
   = Some \<lparr>dustLevel = 50, dustCategory = ''light'', pm25 = 40, pm10 = 60, aqi = JNum 2,
           timestamp = 1700000000000\<rparr>
   \<and> ''light'' \<noteq> ''moderate''"
  by (simp add: fetchOpenWeatherMapData_def fetchWeatherAPIData_def or_zero_def)

text \<open>
  C1, amended. Every result of either provider adapter has the dust level
  \<open>(pm25 + pm10) / 2\<close> and the category \<open>light\<close> when the level is at most 50,
  \<open>moderate\<close> when it is above 50 and at most 150, and \<open>high\<close> when it is above 150.
\<close>

theorem dust_category_thresholds:
  assumes "fetchOpenWeatherMapData lat lon apiKey owm now = Some r
         \<or> fetchWeatherAPIData lat lon apiKey wapi now = Some r"
  shows "dustLevel r = (pm25 r + pm10 r) / 2
    \<and> (dustLevel r \<le> 50 \<longrightarrow> dustCategory r = ''light'')
    \<and> (50 < dustLevel r \<and> dustLevel r \<le> 150 \<longrightarrow> dustCategory r = ''moderate'')
    \<and> (150 < dustLevel r \<longrightarrow> dustCategory r = ''high'')"
  using assms fetchOpenWeatherMapData_result[of lat lon apiKey owm now r]
    fetchWeatherAPIData_result[of lat lon apiKey wapi now r]
  by auto

theorem dust_category_thresholds_witness:
  "fetchWeatherAPIData (JNum 12.97) (JNum 77.59) (JStr ''key'')
     (Body \<lparr>wa_current = Some \<lparr>cur_air_quality = Some
        \<lparr>c_pm2_5 = Some 80, c_pm10 = Some 120, us_epa_index = JNum 3\<rparr>\<rparr>\<rparr>) 1700000000000
   = Some \<lparr>dustLevel = 100, dustCategory = ''moderate'', pm25 = 80, pm10 = 120, aqi = JNum 3,
           timestamp = 1700000000000\<rparr>
   \<and> dustLevel \<lparr>dustLevel = 100, dustCategory = ''moderate'', pm25 = 80, pm10 = 120,
        aqi = JNum 3, timestamp = 1700000000000\<rparr> = (80 + 120) / 2
   \<and> dustCategory \<lparr>dustLevel = 100, dustCategory = ''moderate'', pm25 = 80, pm10 = 120,
        aqi = JNum 3, timestamp = 1700000000000\<rparr> = ''moderate''"
  using dust_category_thresholds
    [where lat = "JNum 12.97" and lon = "JNum 77.59" and apiKey = "JStr ''key''"
       and owm = Rejected and now = 1700000000000
       and wapi = "Body \<lparr>wa_current = Some \<lparr>cur_air_quality = Some
        \<lparr>c_pm2_5 = Some 80, c_pm10 = Some 120, us_epa_index = JNum 3\<rparr>\<rparr>\<rparr>"
       and r = "\<lparr>dustLevel = 100, dustCategory = ''moderate'', pm25 = 80, pm10 = 120,
        aqi = JNum 3, timestamp = 1700000000000\<rparr>"]
  by (simp add: fetchOpenWeatherMapData_def fetchWeatherAPIData_def or_zero_def)

section \<open>Expiring storage entries\<close>

text \<open>
  C8. For a key whose stored text parses to an envelope with a numeric \<open>expiry\<close>:
  when the clock is past the expiry, \<open>getWithExpiry\<close> returns the caller's default and
  the entry is removed from storage; otherwise it returns the envelope's \<open>value\<close> and
  leaves storage as it was.
\<close>

theorem getWithExpiry_expired_or_value:
  assumes "storage = Some st" and "key \<noteq> []" and "st key = Some raw"
    and "parse raw = Some payload"
    and "prop_of ''expiry'' payload = JNum expiry"
  shows "(now > expiry \<longrightarrow>
            getWithExpiry parse storage now key defaultValue
              = (defaultValue, Some (st(key := None))))
       \<and> (now \<le> expiry \<longrightarrow>
            getWithExpiry parse storage now key defaultValue
              = (prop_of ''value'' payload, storage))"
proof -
  have obj: "truthy payload \<and> typeof payload = ''object''"
    using assms(5) by (cases payload) simp_all
  have item: "getItem parse storage key JNull = payload"
    using assms by (simp add: getItem_def)
  have r: "getWithExpiry parse storage now key defaultValue =
      (if now > expiry then (defaultValue, snd (removeItem storage key))
       else (prop_of ''value'' payload, storage))"
    unfolding getWithExpiry_def item using obj assms(5) by (simp add: Let_def js_gt_def)
  have rm: "snd (removeItem storage key) = Some (st(key := None))"
    using assms(1,2) by (simp add: removeItem_def)
  show ?thesis unfolding r rm by simp
qed

theorem getWithExpiry_expired_or_value_witness:
  "getWithExpiry
      (\<lambda>raw. if raw = ''E'' then Some (JObj [(''value'', JStr ''dark''), (''expiry'', JNum 1000)])
              else None)
      (Some [''theme'' \<mapsto> ''E'']) 2000 ''theme'' (JStr ''fallback'')
     = (JStr ''fallback'', Some ([''theme'' \<mapsto> ''E''](''theme'' := None)))
   \<and> getWithExpiry
      (\<lambda>raw. if raw = ''E'' then Some (JObj [(''value'', JStr ''dark''), (''expiry'', JNum 1000)])
              else None)
      (Some [''theme'' \<mapsto> ''E'']) 1000 ''theme'' (JStr ''fallback'')
     = (JStr ''dark'', Some [''theme'' \<mapsto> ''E''])"
  using getWithExpiry_expired_or_value
    [where storage = "Some [''theme'' \<mapsto> ''E'']" and st = "[''theme'' \<mapsto> ''E'']"
       and key = "''theme''" and raw = "''E''" and expiry = 1000 and now = 2000
       and defaultValue = "JStr ''fallback''"
       and payload = "JObj [(''value'', JStr ''dark''), (''expiry'', JNum 1000)]"
       and parse = "\<lambda>raw. if raw = ''E''
              then Some (JObj [(''value'', JStr ''dark''), (''expiry'', JNum 1000)]) else None"]
    getWithExpiry_expired_or_value
    [where storage = "Some [''theme'' \<mapsto> ''E'']" and st = "[''theme'' \<mapsto> ''E'']"
       and key = "''theme''" and raw = "''E''" and expiry = 1000 and now = 1000
       and defaultValue = "JStr ''fallback''"
       and payload = "JObj [(''value'', JStr ''dark''), (''expiry'', JNum 1000)]"
       and parse = "\<lambda>raw. if raw = ''E''
              then Some (JObj [(''value'', JStr ''dark''), (''expiry'', JNum 1000)]) else None"]
  by simp

section \<open>Dust updates for a device at coordinate 0\<close>

lemma updateDustLevel_location_not_set:
  assumes "fst (next_fault b) = None"
    and "get_path [''devices'', deviceId, ''info'', ''lat''] (tree b) = JNum 0
       \<or> get_path [''devices'', deviceId, ''info'', ''lon''] (tree b) = JNum 0"
  shows "fst (updateDustLevel deviceId owm wapi fetched_at now b)
           = Inl (Error ''Device location not set'')
     \<and> tree (snd (updateDustLevel deviceId owm wapi fetched_at now b)) = tree b"
proof -
  let ?info = "get_path [''devices'', deviceId, ''info''] (tree b)"
  have g: "fst (db_get [''devices'', deviceId, ''info''] b) = Inr ?info"
    and t: "tree (snd (db_get [''devices'', deviceId, ''info''] b)) = tree b"
    using db_get_served[OF assms(1)] by simp_all
  have falsy: "\<not> truthy (prop_of ''lat'' ?info) \<or> \<not> truthy (prop_of ''lon'' ?info)"
    using assms(2) by auto
  have ex: "exists_snap ?info"
    using assms(2) by (auto simp add: exists_snap_def)
  show ?thesis
    using g t falsy ex
    by (auto simp add: updateDustLevel_def Let_def split: prod.splits sum.splits)
qed

lemma addDeviceToUser_no_faults:
  assumes "faults b = []"
  shows "snd (addDeviceToUser userId di deviceId today clock b) =
     \<lparr>tree = set_path [''devices'', deviceId] (deviceData userId di today clock)
               (set_path [''users'', userId, ''devices'', deviceId] (JBool True) (tree b)),
      faults = []\<rparr>"
  using assms by (simp add: addDeviceToUser_def db_set_def next_fault_def)

text \<open>
  C9. When the read of \<open>info\<close> is served and \<open>info/lat\<close> or \<open>info/lon\<close> is 0,
  \<open>updateDustLevel\<close> fails with the message \<open>Device location not set\<close> and leaves the
  whole store, so the device's \<open>panelStatus\<close> too, as it was. Provisioning writes 0 for
  a coordinate that \<open>deviceInfo\<close> lacks, so on a store that serves every call a device
  provisioned without a latitude or a longitude gets this failure from its dust update.
\<close>

theorem updateDustLevel_zero_coordinate:
  "(fst (next_fault b) = None
      \<and> (get_path [''devices'', deviceId, ''info'', ''lat''] (tree b) = JNum 0
         \<or> get_path [''devices'', deviceId, ''info'', ''lon''] (tree b) = JNum 0)
      \<longrightarrow> fst (updateDustLevel deviceId owm wapi fetched_at now b)
            = Inl (Error ''Device location not set'')
        \<and> tree (snd (updateDustLevel deviceId owm wapi fetched_at now b)) = tree b)
   \<and> (di_lat di = None \<longrightarrow>
        get_path [''info'', ''lat''] (deviceData userId di today clock) = JNum 0)
   \<and> (di_lon di = None \<longrightarrow>
        get_path [''info'', ''lon''] (deviceData userId di today clock) = JNum 0)
   \<and> (faults b = [] \<and> (di_lat di = None \<or> di_lon di = None) \<longrightarrow>
        fst (updateDustLevel deviceId owm wapi fetched_at now
               (snd (addDeviceToUser userId di deviceId today clock b)))
          = Inl (Error ''Device location not set''))"
proof (intro conjI impI)
  assume "fst (next_fault b) = None
      \<and> (get_path [''devices'', deviceId, ''info'', ''lat''] (tree b) = JNum 0
         \<or> get_path [''devices'', deviceId, ''info'', ''lon''] (tree b) = JNum 0)"
  then show "fst (updateDustLevel deviceId owm wapi fetched_at now b)
            = Inl (Error ''Device location not set'')"
    and "tree (snd (updateDustLevel deviceId owm wapi fetched_at now b)) = tree b"
    using updateDustLevel_location_not_set[of b deviceId owm wapi fetched_at now] by simp_all
next
  assume "di_lat di = None"
  then show "get_path [''info'', ''lat''] (deviceData userId di today clock) = JNum 0"
    by (simp add: deviceData_def or_number_def)
next
  assume "di_lon di = None"
  then show "get_path [''info'', ''lon''] (deviceData userId di today clock) = JNum 0"
    by (simp add: deviceData_def or_number_def)
next
  assume h: "faults b = [] \<and> (di_lat di = None \<or> di_lon di = None)"
  let ?b' = "snd (addDeviceToUser userId di deviceId today clock b)"
  have b': "?b' = \<lparr>tree = set_path [''devices'', deviceId] (deviceData userId di today clock)
               (set_path [''users'', userId, ''devices'', deviceId] (JBool True) (tree b)),
      faults = []\<rparr>"
    using h addDeviceToUser_no_faults by simp
  have served: "fst (next_fault ?b') = None"
    unfolding b' by (simp add: next_fault_def)
  have dev: "get_path [''devices'', deviceId] (tree ?b') = deviceData userId di today clock"
    unfolding b' by (simp only: backend.simps get_set_same)
  have "get_path [''devices'', deviceId, ''info'', ''lat''] (tree ?b')
          = get_path [''info'', ''lat''] (get_path [''devices'', deviceId] (tree ?b'))"
    and "get_path [''devices'', deviceId, ''info'', ''lon''] (tree ?b')
          = get_path [''info'', ''lon''] (get_path [''devices'', deviceId] (tree ?b'))"
    by simp_all
  then have "get_path [''devices'', deviceId, ''info'', ''lat''] (tree ?b') = JNum 0
       \<or> get_path [''devices'', deviceId, ''info'', ''lon''] (tree ?b') = JNum 0"
    unfolding dev using h by (auto simp add: deviceData_def or_number_def)
  then show "fst (updateDustLevel deviceId owm wapi fetched_at now ?b')
          = Inl (Error ''Device location not set'')"
    using updateDustLevel_location_not_set[OF served] by blast
qed

theorem updateDustLevel_zero_coordinate_witness:
  "fst (updateDustLevel ''panel1'' Rejected Rejected 1700000000000 1700000000500
     (one_device ''panel1'' (JObj [(''info'', JObj [(''lat'', JNum 0), (''lon'', JNum 77.59)])])))
     = Inl (Error ''Device location not set'')
   \<and> tree (snd (updateDustLevel ''panel1'' Rejected Rejected 1700000000000 1700000000500
     (one_device ''panel1'' (JObj [(''info'', JObj [(''lat'', JNum 0), (''lon'', JNum 77.59)])]))))
     = tree (one_device ''panel1''
         (JObj [(''info'', JObj [(''lat'', JNum 0), (''lon'', JNum 77.59)])]))
   \<and> fst (updateDustLevel ''dev1'' Rejected Rejected 1700000000000 1700000000500
       (snd (addDeviceToUser ''owner1'' \<lparr>di_name = None, di_location = None,
          di_panelRating = None, di_lat = None, di_lon = None\<rparr> ''dev1'' ''2024-05-01''
          (\<lambda>k. 1714521600000) \<lparr>tree = JNull, faults = []\<rparr>)))
     = Inl (Error ''Device location not set'')"
  using updateDustLevel_zero_coordinate
    [where deviceId = "''panel1''" and owm = Rejected and wapi = Rejected
       and fetched_at = 1700000000000 and now = 1700000000500
       and b = "one_device ''panel1''
         (JObj [(''info'', JObj [(''lat'', JNum 0), (''lon'', JNum 77.59)])])"]
    updateDustLevel_zero_coordinate
    [where deviceId = "''dev1''" and owm = Rejected and wapi = Rejected
       and fetched_at = 1700000000000 and now = 1700000000500
       and userId = "''owner1''" and today = "''2024-05-01''" and clock = "\<lambda>k. 1714521600000"
       and di = "\<lparr>di_name = None, di_location = None, di_panelRating = None,
                  di_lat = None, di_lon = None\<rparr>"
       and b = "\<lparr>tree = JNull, faults = []\<rparr>"]
  by (simp add: one_device_def next_fault_def)

end
